theory Spec2Isabelle
  imports Main
begin

section \<open>Errors, log calls and observable events\<close>

text \<open>
  Every way in which the Python code stops abnormally is a value of \<open>error\<close>:
  \<open>SystemExit n\<close> is \<open>sys.exit(n)\<close> (and the exit of \<open>ArgumentParser.error\<close>, status 2),
  \<open>AioRpcError\<close> is \<open>grpc.aio.AioRpcError\<close>, \<open>BlockStreamException start end n\<close> is the
  exception built at \<open>common.py:142\<close>, and \<open>ProcessorException\<close> stands for whatever
  exception a user-supplied block processor raises.
\<close>

datatype error =
    ZeroDivisionError
  | SystemExit int
  | TypeError
  | AttributeError
  | ImportError
  | AioRpcError
  | BlockStreamException int int int
  | ProcessorException

datatype level = Warning | Error | Critical

text \<open>
  The effects the claims talk about, in the order the program performs them.
  \<open>AuthTokenQuery\<close> is the request for a JWT token (\<open>session.post\<close> to the
  authentication endpoint in \<open>main.py:113\<close>, \<open>get_auth_token()\<close> in
  \<open>pyfirehose/__main__.py:45\<close>), \<open>OpenChannel\<close> is \<open>grpc.aio.secure_channel\<close>,
  \<open>OpenStream s e\<close> is the call \<open>stub.Blocks\<close> of the task for the sub-range from \<open>s\<close>
  to \<open>e\<close>, \<open>WriteFile rows\<close> is the \<open>.jsonl\<close> file written with one line per row, and
  \<open>Log l\<close> is a call of \<open>logging.warning\<close>, \<open>logging.error\<close> or \<open>logging.critical\<close>.
\<close>

datatype 'r event =
    AuthTokenQuery
  | OpenChannel
  | OpenStream int int
  | WriteFile "'r list"
  | Log level

fun network_activity :: "'r event \<Rightarrow> bool" where
  "network_activity AuthTokenQuery = True"
| "network_activity OpenChannel = True"
| "network_activity (OpenStream s e) = True"
| "network_activity (WriteFile rows) = False"
| "network_activity (Log l) = False"

fun stream_or_output :: "'r event \<Rightarrow> bool" where
  "stream_or_output AuthTokenQuery = False"
| "stream_or_output OpenChannel = True"
| "stream_or_output (OpenStream s e) = True"
| "stream_or_output (WriteFile rows) = True"
| "stream_or_output (Log l) = False"

section \<open>The response stream and the block processor\<close>

text \<open>
  What \<open>async for response in stub.Blocks(...)\<close> delivers: a block, or the point where
  the iteration raises \<open>grpc.aio.AioRpcError\<close>. A block processor is a generator
  function; draining it gives the list of its rows, or \<open>None\<close> when it raises.
\<close>

datatype 'b response = Block 'b | RpcFailure

type_synonym ('b, 'r) processor = "'b \<Rightarrow> 'r list option"

section \<open>\<open>pyfirehose/block_extractors/common.py\<close>\<close>

subsection \<open>\<open>process_blocks\<close>\<close>

fun process_loop :: "('b, 'r) processor \<Rightarrow> 'b list \<Rightarrow> 'r list \<Rightarrow> error + 'r list" where
  "process_loop block_processor [] data = Inr data"
| "process_loop block_processor (raw_block # rest) data =
     (case block_processor raw_block of
        None \<Rightarrow> Inl ProcessorException
      | Some blobs \<Rightarrow> process_loop block_processor rest (data @ blobs))"

definition process_blocks :: "'b list \<Rightarrow> ('b, 'r) processor \<Rightarrow> error + 'r list" where
  "process_blocks raw_blocks block_processor = process_loop block_processor raw_blocks []"

subsection \<open>\<open>stream_blocks\<close>\<close>

text \<open>
  The request parameters are a dictionary from names to values; the three dictionaries
  are merged left to right, a later one replacing the entries of an earlier one
  (\<open>common.py:98-103\<close>).
\<close>

datatype pvalue = IntV int | StrV string | ListV "string list"

type_synonym params = "string \<rightharpoonup> pvalue"

definition request_parameters :: "int \<Rightarrow> int \<Rightarrow> params \<Rightarrow> params \<Rightarrow> params" where
  "request_parameters start end_block REQUEST_PARAMETERS kwargs =
     [''start_block_num'' \<mapsto> IntV start, ''stop_block_num'' \<mapsto> IntV end_block]
       ++ REQUEST_PARAMETERS ++ kwargs"

text \<open>
  The function returns a list of raw blocks or of parsed rows, depending on whether a
  block processor is supplied.
\<close>

datatype ('b, 'r) datum = Raw 'b | Parsed 'r

text \<open>
  How the \<open>try\<close> block is left: the stream is exhausted, the iteration raised
  \<open>AioRpcError\<close>, or the block processor raised.
\<close>

datatype loop_exit = Exhausted | RpcFailed | ProcessorFailed

text \<open>
  The two iterations of \<open>common.py:113-134\<close>. The state is \<open>current_block_number\<close> and
  \<open>data\<close>; the result is how the loop was left and the state at that moment.
\<close>

fun loop_processed ::
  "('b, 'r) processor \<Rightarrow> 'b response list \<Rightarrow> int \<times> ('b, 'r) datum list
     \<Rightarrow> loop_exit \<times> int \<times> ('b, 'r) datum list" where
  "loop_processed bp [] (current_block_number, data) =
     (Exhausted, current_block_number, data)"
| "loop_processed bp (RpcFailure # rest) (current_block_number, data) =
     (RpcFailed, current_block_number, data)"
| "loop_processed bp (Block b # rest) (current_block_number, data) =
     (case bp b of
        None \<Rightarrow> (ProcessorFailed, current_block_number + 1, data)
      | Some blobs \<Rightarrow>
          loop_processed bp rest (current_block_number + 1, data @ map Parsed blobs))"

fun loop_raw ::
  "'b response list \<Rightarrow> int \<times> ('b, 'r) datum list \<Rightarrow> loop_exit \<times> int \<times> ('b, 'r) datum list" where
  "loop_raw [] (current_block_number, data) = (Exhausted, current_block_number, data)"
| "loop_raw (RpcFailure # rest) (current_block_number, data) =
     (RpcFailed, current_block_number, data)"
| "loop_raw (Block b # rest) (current_block_number, data) =
     loop_raw rest (current_block_number + 1, data @ [Raw b])"

definition consume ::
  "('b, 'r) processor option \<Rightarrow> 'b response list \<Rightarrow> int
     \<Rightarrow> loop_exit \<times> int \<times> ('b, 'r) datum list" where
  "consume block_processor responses start =
     (case block_processor of
        Some bp \<Rightarrow> loop_processed bp responses (start, [])
      | None \<Rightarrow> loop_raw responses (start, []))"

text \<open>
  \<open>Blocks\<close> is the remote service: the responses it streams for a request.
  \<open>REQUEST_PARAMETERS\<close> is \<open>StubConfig.REQUEST_PARAMETERS\<close>, which the module reads
  from the configuration.
\<close>

definition stream_blocks ::
  "int \<Rightarrow> int \<Rightarrow> (params \<Rightarrow> 'b response list) \<Rightarrow> ('b, 'r) processor option
     \<Rightarrow> params \<Rightarrow> params \<Rightarrow> error + ('b, 'r) datum list" where
  "stream_blocks start end_block Blocks block_processor REQUEST_PARAMETERS kwargs =
     (case consume block_processor
             (Blocks (request_parameters start end_block REQUEST_PARAMETERS kwargs)) start of
        (Exhausted, current_block_number, data) \<Rightarrow> Inr data
      | (RpcFailed, current_block_number, data) \<Rightarrow>
          Inl (BlockStreamException start end_block current_block_number)
      | (ProcessorFailed, current_block_number, data) \<Rightarrow> Inl ProcessorException)"

text \<open>
  What the accumulator holds after the blocks \<open>bs\<close> were received and handled.
\<close>

definition accumulated :: "('b, 'r) processor option \<Rightarrow> 'b list \<Rightarrow> ('b, 'r) datum list" where
  "accumulated block_processor bs =
     (case block_processor of
        Some bp \<Rightarrow> map Parsed (concat (map (\<lambda>b. the (bp b)) bs))
      | None \<Rightarrow> map Raw bs)"

definition handles :: "('b, 'r) processor option \<Rightarrow> 'b list \<Rightarrow> bool" where
  "handles block_processor bs =
     (case block_processor of
        Some bp \<Rightarrow> list_all (\<lambda>b. bp b \<noteq> None) bs
      | None \<Rightarrow> True)"

section \<open>\<open>main.py\<close>\<close>

subsection \<open>The worker: the function \<open>stream_blocks\<close> nested in \<open>run\<close>\<close>

text \<open>
  \<open>main.py:82-100\<close>. Nothing is caught here: an RPC error leaves the worker as the
  \<open>AioRpcError\<close> it is, and so does an exception of the block processor.
\<close>

fun run_stream_loop ::
  "('b, 'r) processor \<Rightarrow> 'b response list \<Rightarrow> 'r list \<Rightarrow> error + 'r list" where
  "run_stream_loop block_processor [] transactions = Inr transactions"
| "run_stream_loop block_processor (RpcFailure # rest) transactions = Inl AioRpcError"
| "run_stream_loop block_processor (Block b # rest) transactions =
     (case block_processor b of
        None \<Rightarrow> Inl ProcessorException
      | Some ts \<Rightarrow> run_stream_loop block_processor rest (transactions @ ts))"

text \<open>
  \<open>Blocks start end_block\<close> is what the service streams for the request of the worker;
  the filter expressions are the same for every worker of a run and are part of
  \<open>Blocks\<close>.
\<close>

definition run_stream_blocks ::
  "(int \<Rightarrow> int \<Rightarrow> 'b response list) \<Rightarrow> ('b, 'r) processor \<Rightarrow> int \<Rightarrow> int \<Rightarrow> error + 'r list" where
  "run_stream_blocks Blocks block_processor start end_block =
     run_stream_loop block_processor (Blocks start end_block) []"

subsection \<open>Splitting the block range\<close>

text \<open>\<open>main.py:124-126\<close>. Python's \<open>//\<close> on integers is floor division and raises on a zero divisor.\<close>

definition clamp_tasks :: "int \<Rightarrow> int \<Rightarrow> int" where
  "clamp_tasks block_diff max_tasks = (if block_diff < max_tasks then block_diff else max_tasks)"

definition floor_div :: "int \<Rightarrow> int \<Rightarrow> error + int" where
  "floor_div a b = (if b = 0 then Inl ZeroDivisionError else Inr (a div b))"

text \<open>\<open>main.py:139-140\<close>: the bounds handed to task \<open>i\<close>.\<close>

definition task_range :: "int \<Rightarrow> int \<Rightarrow> int \<Rightarrow> int \<Rightarrow> int \<Rightarrow> int \<times> int" where
  "task_range period_start period_end max_tasks split i =
     (period_start + i * split,
      if i < max_tasks - 1 then period_start + (i + 1) * split else period_end)"

text \<open>\<open>for i in range(max_tasks)\<close>: the indices \<open>0, ..., max_tasks - 1\<close>, none when \<open>max_tasks \<le> 0\<close>.\<close>

definition task_ranges :: "int \<Rightarrow> int \<Rightarrow> int \<Rightarrow> int \<Rightarrow> (int \<times> int) list" where
  "task_ranges period_start period_end max_tasks split =
     map (task_range period_start period_end max_tasks split) [0..max_tasks - 1]"

definition split_ranges :: "int \<Rightarrow> int \<Rightarrow> int \<Rightarrow> error + (int \<times> int) list" where
  "split_ranges period_start period_end max_tasks =
     (let block_diff = period_end - period_start;
          max_tasks = clamp_tasks block_diff max_tasks
      in case floor_div block_diff max_tasks of
           Inl e \<Rightarrow> Inl e
         | Inr split \<Rightarrow> Inr (task_ranges period_start period_end max_tasks split))"

subsection \<open>Collecting the results\<close>

text \<open>
  \<open>main.py:145-147\<close>: the tasks are awaited in the order in which they were created;
  the first one that raised ends the loop with its exception.
\<close>

fun gather :: "(error + 'r list) list \<Rightarrow> 'r list \<Rightarrow> error + 'r list" where
  "gather [] data = Inr data"
| "gather (t # tasks) data =
     (case t of
        Inl e \<Rightarrow> Inl e
      | Inr rows \<Rightarrow> gather tasks (data @ rows))"

subsection \<open>\<open>run\<close>\<close>

text \<open>
  \<open>status_code\<close> is the status of the authentication endpoint's response. The tasks run
  concurrently, but a task's result depends on its own stream only, so each is
  modelled by the value it ends with. The result of \<open>run\<close> is the trace of its effects
  and how it ended.
\<close>

definition run ::
  "int \<Rightarrow> (int \<Rightarrow> int \<Rightarrow> 'b response list) \<Rightarrow> int \<Rightarrow> int \<Rightarrow> ('b, 'r) processor \<Rightarrow> int
     \<Rightarrow> 'r event list \<times> (error + unit)" where
  "run status_code Blocks period_start period_end block_processor max_tasks =
     (if status_code = 200 then
        (case split_ranges period_start period_end max_tasks of
           Inl e \<Rightarrow> ([AuthTokenQuery], Inl e)
         | Inr ranges \<Rightarrow>
             (case gather (map (\<lambda>(start, end_block).
                                 run_stream_blocks Blocks block_processor start end_block)
                             ranges) [] of
                Inl e \<Rightarrow>
                  ([AuthTokenQuery, OpenChannel] @ map (\<lambda>(start, end_block). OpenStream start end_block) ranges,
                   Inl e)
              | Inr data \<Rightarrow>
                  ([AuthTokenQuery, OpenChannel] @ map (\<lambda>(start, end_block). OpenStream start end_block) ranges
                     @ [WriteFile data],
                   Inr ())))
      else ([AuthTokenQuery, Log Error], Inl (SystemExit 1)))"

subsection \<open>Loading the block processor and checking its signature\<close>

text \<open>
  What \<open>inspect.signature\<close> and \<open>inspect.isgeneratorfunction\<close> report about the loaded
  function: the annotation of each parameter, the return annotation, and whether it is
  a generator function. \<open>Empty\<close> is \<open>inspect.Parameter.empty\<close> (no annotation),
  \<open>BlockAnnotation\<close> is \<open>codec_pb2.Block\<close> and \<open>DictAnnotation\<close> is \<open>typing.Dict\<close>.
\<close>

datatype annotation = Empty | BlockAnnotation | DictAnnotation | OtherAnnotation string

record candidate =
  parameters :: "(string \<times> annotation) list"
  return_annotation :: annotation
  is_generatorfunction :: bool

text \<open>
  The outcome of \<open>getattr(importlib.import_module(module), function)\<close>.
\<close>

datatype load = ImportFails | AttributeMissing | Loaded candidate

datatype verdict = Unchecked | Incompatible | Accepted

text \<open>
  The conditions of \<open>main.py:216-221\<close>, which \<open>pyfirehose/__main__.py:110-121\<close> repeats
  word for word.
\<close>

definition check_signature :: "candidate \<Rightarrow> verdict" where
  "check_signature block_processor =
     (let parameters_annotations = map snd (parameters block_processor)
      in if return_annotation block_processor = Empty
            \<or> (parameters_annotations = [] \<and> parameters block_processor \<noteq> [])
            \<or> list_ex (\<lambda>t. t = Empty) parameters_annotations
         then Unchecked
         else if BlockAnnotation \<notin> set parameters_annotations
                 \<or> return_annotation block_processor \<noteq> DictAnnotation
                 \<or> \<not> is_generatorfunction block_processor
         then Incompatible
         else Accepted)"

text \<open>
  \<open>main.py:209-225\<close>: every exception of the \<open>try\<close> block is logged as critical and
  turned into \<open>sys.exit(1)\<close>. The result is the log calls made and the error, if any.
\<close>

definition load_block_processor :: "bool \<Rightarrow> load \<Rightarrow> 'r event list \<times> error option" where
  "load_block_processor disable_signature_check module =
     (case module of
        ImportFails \<Rightarrow> ([Log Critical], Some (SystemExit 1))
      | AttributeMissing \<Rightarrow> ([Log Critical], Some (SystemExit 1))
      | Loaded block_processor \<Rightarrow>
          if disable_signature_check then ([], None)
          else (case check_signature block_processor of
                  Unchecked \<Rightarrow> ([Log Warning], None)
                | Incompatible \<Rightarrow> ([Log Critical], Some (SystemExit 1))
                | Accepted \<Rightarrow> ([], None)))"

subsection \<open>The script\<close>

record args =
  arg_block_start :: int
  arg_block_end :: int
  arg_max_tasks :: int
  arg_disable_signature_check :: bool

text \<open>
  \<open>main.py:175-238\<close>. \<open>arg_parser.error\<close> prints the message and exits with status 2.
  \<open>block_processor\<close> is the behaviour of the loaded function, \<open>module\<close> what loading it
  and inspecting it gives.
\<close>

definition main_py ::
  "args \<Rightarrow> load \<Rightarrow> int \<Rightarrow> (int \<Rightarrow> int \<Rightarrow> 'b response list) \<Rightarrow> ('b, 'r) processor
     \<Rightarrow> 'r event list \<times> (error + unit)" where
  "main_py args module status_code Blocks block_processor =
     (if arg_block_end args < arg_block_start args then ([], Inl (SystemExit 2))
      else (case load_block_processor (arg_disable_signature_check args) module of
              (logs, Some e) \<Rightarrow> (logs, Inl e)
            | (logs, None) \<Rightarrow>
                (case run status_code Blocks (arg_block_start args) (arg_block_end args)
                        block_processor (arg_max_tasks args) of
                   (trace, result) \<Rightarrow> (logs @ trace, result))))"

section \<open>\<open>pyfirehose/__main__.py\<close>\<close>

record pf_args =
  arg_start :: int
  arg_end :: int
  arg_no_signature_check :: bool

text \<open>
  \<open>pyfirehose/__main__.py:103-126\<close>: only \<open>AttributeError\<close> and \<open>TypeError\<close> are caught,
  logged as critical and raised again; a failing import is not caught.
\<close>

definition pf_load_block_processor :: "bool \<Rightarrow> load \<Rightarrow> 'r event list \<times> error option" where
  "pf_load_block_processor disable_signature_check module =
     (case module of
        ImportFails \<Rightarrow> ([], Some ImportError)
      | AttributeMissing \<Rightarrow> ([Log Critical], Some AttributeError)
      | Loaded block_processor \<Rightarrow>
          if disable_signature_check then ([], None)
          else (case check_signature block_processor of
                  Unchecked \<Rightarrow> ([Log Warning], None)
                | Incompatible \<Rightarrow> ([Log Critical], Some TypeError)
                | Accepted \<Rightarrow> ([], None)))"

text \<open>
  What \<open>main()\<close> ends with: \<open>return 1\<close>, or the call of \<open>asyncio_main\<close> and
  \<open>process_blocks\<close> of line 128, which starts the extraction (\<open>asyncio_main\<close> is in
  another module).
\<close>

datatype returned = Returned int | Extraction

text \<open>
  \<open>pyfirehose/__main__.py:47-140\<close>. \<open>JWT\<close> tells whether the module-level
  \<open>JWT = get_auth_token()\<close> gave a token. \<open>get_auth_token\<close> is imported from \<open>utils\<close>;
  it is the query for a token that \<open>main.py:102-121\<close> makes inside \<open>run\<close>, so only its
  outcome is a parameter here and its call is the event \<open>AuthTokenQuery\<close>.
\<close>

definition pyfirehose_main :: "bool \<Rightarrow> pf_args \<Rightarrow> load \<Rightarrow> 'r event list \<times> (error + returned)" where
  "pyfirehose_main JWT args module =
     (if \<not> JWT then ([], Inr (Returned 1))
      else if arg_end args < arg_start args then ([Log Error], Inr (Returned 1))
      else (case pf_load_block_processor (arg_no_signature_check args) module of
              (logs, Some e) \<Rightarrow> (logs, Inl e)
            | (logs, None) \<Rightarrow> (logs, Inr Extraction)))"

text \<open>
  Running the module as a script: the token is requested when the module is loaded
  (line 45), then \<open>main()\<close> is called (line 143).
\<close>

definition pyfirehose_script :: "bool \<Rightarrow> pf_args \<Rightarrow> load \<Rightarrow> 'r event list \<times> (error + returned)" where
  "pyfirehose_script JWT args module =
     (case pyfirehose_main JWT args module of
        (trace, result) \<Rightarrow> (AuthTokenQuery # trace, result))"

section \<open>What a split of a block range has to be\<close>

text \<open>
  \<open>partitions a rs b\<close>: the ranges \<open>rs\<close>, read as half-open intervals, are non-empty, each
  starts where the one before it ends, the first starts at \<open>a\<close> and the last ends at
  \<open>b\<close>.
\<close>

fun partitions :: "int \<Rightarrow> (int \<times> int) list \<Rightarrow> int \<Rightarrow> bool" where
  "partitions a [] b = (a = b)"
| "partitions a ((x, y) # rs) b = (x = a \<and> x < y \<and> partitions y rs b)"

section \<open>Facts about the iteration over the stream\<close>

lemma loop_processed_prefix:
  "list_all (\<lambda>b. bp b \<noteq> None) bs \<Longrightarrow>
   loop_processed bp (map Block bs @ rest) (n, data) =
   loop_processed bp rest
     (n + int (length bs), data @ map Parsed (concat (map (\<lambda>b. the (bp b)) bs)))"
proof (induction bs arbitrary: n data)
  case Nil
  show ?case by simp
next
  case (Cons b bs)
  from Cons.prems obtain blobs where b: "bp b = Some blobs" and all: "list_all (\<lambda>b. bp b \<noteq> None) bs"
    by auto
  show ?case
    using Cons.IH [OF all, of "n + 1" "data @ map Parsed blobs"] b
    by (simp add: algebra_simps)
qed

lemma loop_raw_prefix:
  "loop_raw (map Block bs @ rest) (n, data) =
   loop_raw rest (n + int (length bs), data @ map Raw bs)"
proof (induction bs arbitrary: n data)
  case Nil
  show ?case by simp
next
  case (Cons b bs)
  show ?case
    using Cons.IH [of "n + 1" "data @ [Raw b]"] by (simp add: algebra_simps)
qed

lemma consume_prefix:
  "handles block_processor bs \<Longrightarrow>
   consume block_processor (map Block bs @ rest) start =
   (case block_processor of
      Some bp \<Rightarrow> loop_processed bp rest (start + int (length bs), accumulated block_processor bs)
    | None \<Rightarrow> loop_raw rest (start + int (length bs), accumulated block_processor bs))"
  by (cases block_processor)
     (simp_all add: consume_def handles_def accumulated_def loop_processed_prefix loop_raw_prefix)

lemma consume_rpc_failure:
  "handles block_processor bs \<Longrightarrow>
   consume block_processor (map Block bs @ RpcFailure # rest) start =
   (RpcFailed, start + int (length bs), accumulated block_processor bs)"
  by (cases block_processor) (simp_all add: consume_prefix)

lemma consume_exhausted:
  "handles block_processor bs \<Longrightarrow>
   consume block_processor (map Block bs) start =
   (Exhausted, start + int (length bs), accumulated block_processor bs)"
  using consume_prefix [of block_processor bs "[]" start]
  by (cases block_processor) simp_all

section \<open>The stream worker's failure report\<close>

text \<open>
  Claim C4. A worker over the sub-range from \<open>start\<close> to \<open>end_block\<close> whose stream raises
  an RPC error after \<open>k\<close> blocks were received and handled raises
  \<open>BlockStreamException\<close> with exactly the bounds \<open>start\<close> and \<open>end_block\<close> and the block
  number \<open>start + k\<close>; what the stream would have delivered after the error (\<open>rest\<close>) has
  no influence, and the loop is left with exactly the \<open>k\<close> blocks handled.
\<close>

theorem stream_blocks_rpc_failure_report:
  assumes "Blocks (request_parameters start end_block REQUEST_PARAMETERS kwargs) =
             map Block bs @ RpcFailure # rest"
    and "length bs = k"
    and "handles block_processor bs"
  shows "stream_blocks start end_block Blocks block_processor REQUEST_PARAMETERS kwargs =
           Inl (BlockStreamException start end_block (start + int k))
         \<and> consume block_processor (map Block bs @ RpcFailure # rest) start =
             (RpcFailed, start + int k, accumulated block_processor bs)"
  using assms by (simp add: stream_blocks_def consume_rpc_failure)

theorem stream_blocks_rpc_failure_report_witness:
  "stream_blocks 1000 1100 (\<lambda>req. map Block (replicate 50 ()) @ RpcFailure # [Block ()])
     (None :: (unit, unit) processor option) Map.empty Map.empty =
   Inl (BlockStreamException 1000 1100 1050)"
  using stream_blocks_rpc_failure_report
    [of "\<lambda>req. map Block (replicate 50 ()) @ RpcFailure # [Block ()]" 1000 1100
        Map.empty Map.empty "replicate 50 ()" "[Block ()]" 50
        "None :: (unit, unit) processor option"]
  by (simp add: handles_def)

text \<open>
  Claim C9. When the stream raises an RPC error, whatever the worker has accumulated up
  to then (\<open>accumulated block_processor bs\<close>, the rows or raw blocks of the blocks
  received) stays in the loop's state: the worker ends with \<open>BlockStreamException\<close>,
  which carries three numbers, and with no list of data.
\<close>

theorem stream_blocks_discards_partial_data:
  assumes "Blocks (request_parameters start end_block REQUEST_PARAMETERS kwargs) =
             map Block bs @ RpcFailure # rest"
    and "handles block_processor bs"
  shows "snd (snd (consume block_processor
                     (Blocks (request_parameters start end_block REQUEST_PARAMETERS kwargs))
                     start)) = accumulated block_processor bs
         \<and> stream_blocks start end_block Blocks block_processor REQUEST_PARAMETERS kwargs =
             Inl (BlockStreamException start end_block (start + int (length bs)))
         \<and> (\<forall>data. stream_blocks start end_block Blocks block_processor REQUEST_PARAMETERS kwargs
                     \<noteq> Inr data)"
  using assms by (simp add: stream_blocks_def consume_rpc_failure)

theorem stream_blocks_discards_partial_data_witness:
  "snd (snd (consume (Some (\<lambda>b. Some [b, b])) [Block (7::int), Block 8, RpcFailure] 10)) =
     [Parsed 7, Parsed 7, Parsed 8, Parsed 8]
   \<and> stream_blocks 10 20 (\<lambda>req. [Block (7::int), Block 8, RpcFailure])
        (Some (\<lambda>b. Some [b, b])) Map.empty Map.empty =
      Inl (BlockStreamException 10 20 12)"
  using stream_blocks_discards_partial_data
    [of "\<lambda>req. [Block (7::int), Block 8, RpcFailure]" 10 20 Map.empty Map.empty
        "[7, 8]" "[]" "Some (\<lambda>b. Some [b, b]) :: (int, int) processor option"]
  by (simp add: handles_def accumulated_def)

section \<open>Successful workers\<close>

lemma run_stream_loop_success:
  "list_all (\<lambda>b. bp b = Some (f b)) bs \<Longrightarrow>
   run_stream_loop bp (map Block bs) transactions = Inr (transactions @ concat (map f bs))"
  by (induction bs arbitrary: transactions) simp_all

lemma process_loop_success:
  "list_all (\<lambda>b. bp b = Some (f b)) bs \<Longrightarrow>
   process_loop bp bs data = Inr (data @ concat (map f bs))"
  by (induction bs arbitrary: data) simp_all

lemma accumulated_one_each:
  "list_all (\<lambda>b. bp b = Some [r b]) bs \<Longrightarrow>
   accumulated (Some bp) bs = map (\<lambda>b. Parsed (r b)) bs"
  by (induction bs) (auto simp: accumulated_def)

lemma one_each_handles:
  "list_all (\<lambda>b. bp b = Some [r b]) bs \<Longrightarrow> handles (Some bp) bs"
  by (induction bs) (auto simp: handles_def)

lemma run_stream_loop_one_each:
  "list_all (\<lambda>b. bp b = Some [r b]) bs \<Longrightarrow>
   run_stream_loop bp (map Block bs) transactions = Inr (transactions @ map r bs)"
  by (induction bs arbitrary: transactions) simp_all

text \<open>
  Claim C6. A worker whose stream delivers exactly the blocks \<open>bs\<close> of its sub-range, as
  many as the sub-range is wide, and whose block processor yields exactly one row
  \<open>r b\<close> for each block \<open>b\<close> of them, returns exactly these rows, one for each block in
  the order of the blocks and nothing else (no raw block among them), so exactly as
  many rows as the sub-range is wide. This holds for the worker of \<open>common.py\<close> (with
  a block processor) and for the worker nested in \<open>run\<close>.
\<close>

theorem one_record_per_block_width:
  assumes "Blocks (request_parameters start end_block REQUEST_PARAMETERS kwargs) = map Block bs"
    and "Blocks' start end_block = map Block bs"
    and "int (length bs) = end_block - start"
    and "list_all (\<lambda>b. bp b = Some [r b]) bs"
  shows "stream_blocks start end_block Blocks (Some bp) REQUEST_PARAMETERS kwargs =
           Inr (map (\<lambda>b. Parsed (r b)) bs)
         \<and> int (length (map (\<lambda>b. Parsed (r b) :: ('b, 'r) datum) bs)) = end_block - start
         \<and> run_stream_blocks Blocks' bp start end_block = Inr (map r bs)
         \<and> int (length (map r bs)) = end_block - start"
proof -
  have "consume (Some bp) (map Block bs) start =
          (Exhausted, start + int (length bs), accumulated (Some bp) bs)"
    using assms(4) by (intro consume_exhausted one_each_handles)
  then have "stream_blocks start end_block Blocks (Some bp) REQUEST_PARAMETERS kwargs =
               Inr (accumulated (Some bp) bs)"
    using assms(1) by (simp add: stream_blocks_def)
  then have common: "stream_blocks start end_block Blocks (Some bp) REQUEST_PARAMETERS kwargs =
               Inr (map (\<lambda>b. Parsed (r b)) bs)"
    using assms(4) by (simp add: accumulated_one_each)
  have nested: "run_stream_blocks Blocks' bp start end_block = Inr (map r bs)"
    using run_stream_loop_one_each [OF assms(4), of "[]"] assms(2)
    by (simp add: run_stream_blocks_def)
  show ?thesis using common nested assms(3) by simp
qed

theorem one_record_per_block_width_witness:
  "stream_blocks 100 105 (\<lambda>req. map Block [100, 101, 102, 103, 104 :: int])
     (Some (\<lambda>b. Some [- b])) Map.empty Map.empty =
     Inr [Parsed (- 100), Parsed (- 101), Parsed (- 102), Parsed (- 103), Parsed (- 104)]
   \<and> int (length [Parsed (- 100), Parsed (- 101), Parsed (- 102), Parsed (- 103),
                   Parsed (- 104) :: (int, int) datum]) = 105 - 100
   \<and> run_stream_blocks (\<lambda>s e. map Block [100, 101, 102, 103, 104 :: int])
       (\<lambda>b. Some [- b]) 100 105 = Inr [- 100, - 101, - 102, - 103, - 104]"
  using one_record_per_block_width
    [of "\<lambda>req. map Block [100, 101, 102, 103, 104 :: int]" 100 105 Map.empty Map.empty
        "[100, 101, 102, 103, 104]" "\<lambda>s e. map Block [100, 101, 102, 103, 104 :: int]"
        "\<lambda>b. Some [- b] :: int list option" "\<lambda>b. - b"]
  by simp

section \<open>Aggregation\<close>

lemma gather_workers:
  assumes "list_all (\<lambda>(a, b). worker a b = Inr (w a b)) ranges"
  shows "gather (map (\<lambda>(a, b). worker a b) ranges) data =
           Inr (data @ concat (map (\<lambda>(a, b). w a b) ranges))"
  using assms by (induction ranges arbitrary: data) (auto)

text \<open>
  Claim C5. When every worker succeeds (its stream ends without an RPC error and the
  block processor raises on none of its blocks), each worker returns the rows of its
  blocks in the order in which the blocks arrived, and \<open>run\<close> writes the concatenation
  of the workers' lists in the order of the workers' indices. \<open>process_blocks\<close> keeps
  the order of the blocks in the same way.
\<close>

theorem aggregation_order:
  assumes "split_ranges period_start period_end max_tasks = Inr ranges"
    and "list_all (\<lambda>(a, b). Blocks a b = map Block (blocks a b)
                    \<and> list_all (\<lambda>x. bp x = Some (f x)) (blocks a b)) ranges"
    and "list_all (\<lambda>x. bp x = Some (f x)) raw_blocks"
  shows "list_all (\<lambda>(a, b). run_stream_blocks Blocks bp a b = Inr (concat (map f (blocks a b))))
           ranges
         \<and> run 200 Blocks period_start period_end bp max_tasks =
             ([AuthTokenQuery, OpenChannel] @ map (\<lambda>(a, b). OpenStream a b) ranges
                @ [WriteFile (concat (map (\<lambda>(a, b). concat (map f (blocks a b))) ranges))],
              Inr ())
         \<and> process_blocks raw_blocks bp = Inr (concat (map f raw_blocks))"
proof -
  have workers: "list_all (\<lambda>(a, b). run_stream_blocks Blocks bp a b = Inr (concat (map f (blocks a b))))
           ranges"
    using assms(2)
    by (induction ranges) (auto simp: run_stream_blocks_def run_stream_loop_success)
  have "gather (map (\<lambda>(a, b). run_stream_blocks Blocks bp a b) ranges) [] =
          Inr (concat (map (\<lambda>(a, b). concat (map f (blocks a b))) ranges))"
    using gather_workers [OF workers, of "[]"] by simp
  then have "run 200 Blocks period_start period_end bp max_tasks =
             ([AuthTokenQuery, OpenChannel] @ map (\<lambda>(a, b). OpenStream a b) ranges
                @ [WriteFile (concat (map (\<lambda>(a, b). concat (map f (blocks a b))) ranges))],
              Inr ())"
    using assms(1) by (simp add: run_def)
  moreover have "process_blocks raw_blocks bp = Inr (concat (map f raw_blocks))"
    using assms(3) by (simp add: process_blocks_def process_loop_success)
  ultimately show ?thesis using workers by blast
qed

lemma split_100_110_2: "split_ranges 100 110 2 = Inr [(100, 105), (105, 110)]"
  by (simp add: split_ranges_def clamp_tasks_def floor_div_def task_ranges_def task_range_def
      upto.simps)

theorem aggregation_order_witness:
  "run 200 (\<lambda>a b. map Block [a, a + 1]) 100 110 (\<lambda>x. Some [x, - x]) 2 =
     ([AuthTokenQuery, OpenChannel, OpenStream 100 105, OpenStream 105 110,
       WriteFile [100, - 100, 101, - 101, 105, - 105, 106, - 106]], Inr ())
   \<and> process_blocks [3, 1, 2 :: int] (\<lambda>x. Some [x, - x]) = Inr [3, - 3, 1, - 1, 2, - 2]"
  using aggregation_order
    [of 100 110 2 "[(100, 105), (105, 110)]" "\<lambda>a b. map Block [a, a + 1]"
        "\<lambda>a b. [a, a + 1]" "\<lambda>x. Some [x, - x]" "\<lambda>x. [x, - x]" "[3, 1, 2]",
     OF split_100_110_2]
  by simp

section \<open>The request parameters\<close>

text \<open>
  Claim C7, as the code has it. The request is built from three layers: a keyword
  argument of the call wins over everything, for every key (also for
  \<open>start_block_num\<close> and \<open>stop_block_num\<close>); a key that is no keyword argument takes
  the value of the stub configuration; the positional \<open>start\<close> and \<open>end\<close> are used only
  for a key that neither of the two defines. So the configuration is in the middle,
  not at the bottom.
\<close>

theorem request_parameters_precedence:
  "request_parameters start end_block REQUEST_PARAMETERS kwargs key =
     (case kwargs key of
        Some v \<Rightarrow> Some v
      | None \<Rightarrow>
          (case REQUEST_PARAMETERS key of
             Some v \<Rightarrow> Some v
           | None \<Rightarrow>
               if key = ''stop_block_num'' then Some (IntV end_block)
               else if key = ''start_block_num'' then Some (IntV start)
               else None))"
  by (simp add: request_parameters_def map_add_def split: option.splits)

text \<open>
  A configuration that sets \<open>start_block_num\<close> replaces the \<open>start\<close> the worker was
  called with: the call for the blocks from 1000 on asks the service for the blocks
  from 5 on.
\<close>

theorem request_parameters_config_beats_start:
  "request_parameters 1000 1100 [''start_block_num'' \<mapsto> IntV 5] Map.empty ''start_block_num''
     = Some (IntV 5)
   \<and> request_parameters 1000 1100 [''start_block_num'' \<mapsto> IntV 5] Map.empty ''start_block_num''
     \<noteq> Some (IntV 1000)"
  by (simp add: request_parameters_def)

section \<open>The range splitter\<close>

text \<open>
  For a period with at least one block and at least one task, the splitter returns
  sub-ranges that partition the period, as many as the clamped number of tasks.
\<close>

lemma partitions_bounds:
  "partitions a rs b \<Longrightarrow> a \<le> b \<and> (\<forall>(x, y) \<in> set rs. a \<le> x \<and> x < y \<and> y \<le> b)"
  by (induction a rs b rule: partitions.induct) fastforce+

lemma partitions_union:
  "partitions a rs b \<Longrightarrow> (\<Union>(x, y) \<in> set rs. {x..<y}) = {a..<b}"
proof (induction a rs b rule: partitions.induct)
  case (1 a b)
  then show ?case by simp
next
  case (2 a x y rs b)
  then have "x = a" "x < y" "partitions y rs b" by simp_all
  moreover from this have "y \<le> b" using partitions_bounds by blast
  moreover have "(\<Union>(x, y) \<in> set rs. {x..<y}) = {y..<b}" using 2 by simp
  ultimately show ?case by auto
qed

lemma partitions_disjoint:
  "partitions a rs b \<Longrightarrow> i < j \<Longrightarrow> j < length rs \<Longrightarrow> snd (rs ! i) \<le> fst (rs ! j)"
proof (induction a rs b arbitrary: i j rule: partitions.induct)
  case (1 a b)
  then show ?case by simp
next
  case (2 a x y rs b)
  then have p: "partitions y rs b" by simp
  from 2(3) obtain j' where j: "j = Suc j'" by (cases j) auto
  show ?case
  proof (cases i)
    case 0
    have "rs ! j' \<in> set rs" using 2(4) j by simp
    then have "y \<le> fst (rs ! j')" using partitions_bounds [OF p] by (auto simp: case_prod_beta)
    then show ?thesis using 0 j by simp
  next
    case (Suc i')
    then show ?thesis using 2(1) [OF p, of i' j'] 2(3,4) j by simp
  qed
qed

lemma task_ranges_partitions_from:
  assumes "0 < split" and "(max_tasks - 1) * split < period_end - period_start"
  shows "0 \<le> i \<Longrightarrow> i \<le> max_tasks - 1 \<Longrightarrow>
         partitions (period_start + i * split)
           (map (task_range period_start period_end max_tasks split) [i..max_tasks - 1])
           period_end"
proof (induction i "max_tasks - 1" rule: upto.induct)
  case (1 i)
  show ?case
  proof (cases "i < max_tasks - 1")
    case True
    then have "partitions (period_start + (i + 1) * split)
           (map (task_range period_start period_end max_tasks split) [i + 1..max_tasks - 1])
           period_end"
      using 1 by simp
    then show ?thesis
      using True assms(1) by (subst upto.simps) (simp add: task_range_def algebra_simps)
  next
    case False
    then have i: "i = max_tasks - 1" using 1 by simp
    show ?thesis
      using assms(2) by (subst upto.simps) (simp add: i task_range_def algebra_simps)
  qed
qed

lemma split_ranges_partitions:
  assumes "period_start < period_end" and "1 \<le> max_tasks"
  shows "split_ranges period_start period_end max_tasks =
           Inr (task_ranges period_start period_end
                  (clamp_tasks (period_end - period_start) max_tasks)
                  ((period_end - period_start)
                     div clamp_tasks (period_end - period_start) max_tasks))
         \<and> partitions period_start
             (task_ranges period_start period_end
                (clamp_tasks (period_end - period_start) max_tasks)
                ((period_end - period_start)
                   div clamp_tasks (period_end - period_start) max_tasks))
             period_end
         \<and> int (length (task_ranges period_start period_end
                (clamp_tasks (period_end - period_start) max_tasks)
                ((period_end - period_start)
                   div clamp_tasks (period_end - period_start) max_tasks))) =
             clamp_tasks (period_end - period_start) max_tasks"
proof -
  define d where "d = period_end - period_start"
  define m where "m = clamp_tasks d max_tasks"
  define c where "c = d div m"
  have m: "1 \<le> m" "m \<le> d" using assms by (auto simp: m_def d_def clamp_tasks_def)
  have "m * c + d mod m = d" unfolding c_def by (rule mult_div_mod_eq)
  moreover have "0 \<le> d mod m" using m by simp
  ultimately have "m * c \<le> d" by linarith
  have c: "0 < c" unfolding c_def using m by (simp add: pos_imp_zdiv_pos_iff)
  have "(m - 1) * c = m * c - c" by (simp add: algebra_simps)
  then have last: "(m - 1) * c < period_end - period_start"
    using \<open>m * c \<le> d\<close> c by (simp add: d_def)
  have "partitions (period_start + 0 * c)
          (map (task_range period_start period_end m c) [0..m - 1]) period_end"
    using m by (intro task_ranges_partitions_from [OF c last]) simp_all
  then have p: "partitions period_start (task_ranges period_start period_end m c) period_end"
    by (simp add: task_ranges_def)
  have s: "split_ranges period_start period_end max_tasks =
             Inr (task_ranges period_start period_end m c)"
    using m by (simp add: split_ranges_def floor_div_def m_def c_def d_def Let_def)
  have l: "int (length (task_ranges period_start period_end m c)) = m"
    using m by (simp add: task_ranges_def)
  show ?thesis using p s l unfolding m_def c_def d_def by blast
qed

text \<open>
  Claim C1. The splitter is to produce sub-ranges that partition the period for every
  \<open>period_start \<le> period_end\<close> and \<open>max_tasks \<ge> 1\<close>. For \<open>period_start < period_end\<close> it
  does (\<open>split_ranges_partitions\<close>, \<open>partitions_union\<close>, \<open>partitions_disjoint\<close>). For an
  empty period it produces nothing: the number of tasks is clamped to zero and the
  chunk computation raises.
\<close>

theorem split_ranges_empty_period_raises:
  "split_ranges 100 100 20 = Inl ZeroDivisionError"
  by (simp add: split_ranges_def clamp_tasks_def floor_div_def)

text \<open>
  Claim C2. With more tasks asked for than there are blocks, the number of sub-ranges
  is to be the number of blocks. For \<open>period_start < period_end\<close> it is
  (\<open>split_ranges_partitions\<close>). For an empty period the clamped number of tasks is the
  number of blocks, zero, but the splitter raises instead of returning no sub-range.
\<close>

theorem clamp_to_zero_tasks_raises:
  "clamp_tasks (7 - 7) 1 = 7 - 7 \<and> split_ranges 7 7 1 = Inl ZeroDivisionError"
  by (simp add: split_ranges_def clamp_tasks_def floor_div_def)

text \<open>
  Claim C10, as the code has it. A call of \<open>run\<close> for an empty period with
  \<open>max_tasks \<ge> 0\<close>, once the authentication request has been answered with status 200,
  clamps the number of tasks to zero and raises \<open>ZeroDivisionError\<close>: the trace holds
  the authentication request only, so no channel and no stream is opened and no file
  is written.
\<close>

theorem run_empty_period:
  assumes "0 \<le> max_tasks"
  shows "clamp_tasks (period - period) max_tasks = 0
         \<and> run 200 Blocks period period block_processor max_tasks =
             ([AuthTokenQuery], Inl ZeroDivisionError)"
  using assms by (simp add: run_def split_ranges_def clamp_tasks_def floor_div_def)

theorem run_empty_period_witness:
  "clamp_tasks (100 - 100) 20 = 0
   \<and> run 200 (\<lambda>a b. [Block ()]) 100 100 (\<lambda>b. Some [b]) 20 =
       ([AuthTokenQuery], Inl ZeroDivisionError)"
  using run_empty_period [of 20 100 "\<lambda>a b. [Block ()]" "\<lambda>b. Some [b] :: unit list option"]
  by simp

text \<open>
  With a negative \<open>max_tasks\<close> nothing is clamped and nothing is divided by zero: \<open>run\<close>
  opens the channel, creates no task and writes a file without rows.
\<close>

theorem run_empty_period_negative_tasks:
  "run 200 (\<lambda>a b. [Block ()]) 5 5 (\<lambda>b. Some [b]) (- 1) =
     ([AuthTokenQuery, OpenChannel, WriteFile []], Inr ())"
  by (simp add: run_def split_ranges_def clamp_tasks_def floor_div_def task_ranges_def)

section \<open>Configuration errors\<close>

text \<open>
  Claim C3, as the code has it. With \<open>period_end < period_start\<close>, \<open>main.py\<close> leaves
  through the argument parser's error (exit status 2) before any effect at all.
  \<open>pyfirehose/__main__.py\<close> returns 1 without a channel, a stream or an output file, but
  its trace starts with the token request made when the module is loaded, and the
  invalid range is logged only if a token was obtained.
\<close>

theorem invalid_range_rejected:
  assumes "arg_block_end args < arg_block_start args"
    and "arg_end pargs < arg_start pargs"
  shows "main_py args module status_code Blocks block_processor = ([], Inl (SystemExit 2))
         \<and> pyfirehose_script JWT pargs module' =
             (AuthTokenQuery # (if JWT then [Log Error] else []), Inr (Returned 1))
         \<and> \<not> list_ex stream_or_output (fst (pyfirehose_script JWT pargs module'))"
  using assms by (simp add: main_py_def pyfirehose_script_def pyfirehose_main_def)

theorem invalid_range_rejected_witness:
  "main_py \<lparr>arg_block_start = 10, arg_block_end = 5, arg_max_tasks = 20,
            arg_disable_signature_check = False\<rparr>
     ImportFails 200 (\<lambda>a b. [Block ()]) (\<lambda>b. Some [b]) = ([], Inl (SystemExit 2))
   \<and> pyfirehose_script True \<lparr>arg_start = 10, arg_end = 5, arg_no_signature_check = False\<rparr>
       ImportFails = ([AuthTokenQuery, Log Error :: unit event], Inr (Returned 1))"
proof -
  have "main_py \<lparr>arg_block_start = 10, arg_block_end = 5, arg_max_tasks = 20,
            arg_disable_signature_check = False\<rparr>
          ImportFails 200 (\<lambda>a b. [Block ()]) (\<lambda>b. Some [b]) = ([], Inl (SystemExit 2))
        \<and> pyfirehose_script True \<lparr>arg_start = 10, arg_end = 5, arg_no_signature_check = False\<rparr>
            ImportFails =
            ((AuthTokenQuery :: unit event) # (if True then [Log Error] else []), Inr (Returned 1))
        \<and> \<not> list_ex stream_or_output
              (fst (pyfirehose_script True
                      \<lparr>arg_start = 10, arg_end = 5, arg_no_signature_check = False\<rparr> ImportFails
                    :: unit event list \<times> (error + returned)))"
    by (rule invalid_range_rejected) simp_all
  then show ?thesis by simp
qed

text \<open>
  In \<open>pyfirehose/__main__.py\<close> the invalid range is found after network activity: the
  token request precedes the error.
\<close>

theorem invalid_range_after_token_query:
  "fst (pyfirehose_script True \<lparr>arg_start = 10, arg_end = 5, arg_no_signature_check = False\<rparr>
          ImportFails) = [AuthTokenQuery, Log Error :: unit event]
   \<and> network_activity (AuthTokenQuery :: unit event)"
  by (simp add: pyfirehose_script_def pyfirehose_main_def)

lemma check_signature_unchecked:
  "return_annotation c = Empty \<or> Empty \<in> snd ` set (parameters c) \<Longrightarrow>
   check_signature c = Unchecked"
  by (auto simp: check_signature_def Let_def list_ex_iff)

lemma check_signature_incompatible:
  "return_annotation c \<noteq> Empty \<Longrightarrow> Empty \<notin> snd ` set (parameters c) \<Longrightarrow>
   BlockAnnotation \<notin> snd ` set (parameters c) \<or> return_annotation c \<noteq> DictAnnotation
     \<or> \<not> is_generatorfunction c \<Longrightarrow>
   check_signature c = Incompatible"
  by (auto simp: check_signature_def Let_def list_ex_iff)

text \<open>
  Claim C8, as the code has it. With a valid range and the signature check enabled: a
  loaded function whose return annotation or one of whose parameter annotations is
  missing gets a warning and the run continues (\<open>main.py\<close> goes on with \<open>run\<close>,
  \<open>pyfirehose/__main__.py\<close> with the extraction). A fully annotated function that has no
  parameter of the block type, does not return \<open>Dict\<close> or is no generator function
  stops the program before any channel, stream or output: \<open>main.py\<close> exits with status 1
  before any network activity, \<open>pyfirehose/__main__.py\<close> raises \<open>TypeError\<close> again after
  the token request made when the module is loaded.
\<close>

theorem signature_check_outcomes:
  assumes "arg_block_start args \<le> arg_block_end args"
    and "\<not> arg_disable_signature_check args"
    and "arg_start pargs \<le> arg_end pargs"
    and "\<not> arg_no_signature_check pargs"
  shows "(return_annotation c = Empty \<or> Empty \<in> snd ` set (parameters c) \<longrightarrow>
            main_py args (Loaded c) status_code Blocks block_processor =
              (case run status_code Blocks (arg_block_start args) (arg_block_end args)
                      block_processor (arg_max_tasks args) of
                 (trace, result) \<Rightarrow> (Log Warning # trace, result))
            \<and> pyfirehose_script True pargs (Loaded c) =
                ([AuthTokenQuery, Log Warning], Inr Extraction))
         \<and> (return_annotation c \<noteq> Empty \<and> Empty \<notin> snd ` set (parameters c)
              \<and> (BlockAnnotation \<notin> snd ` set (parameters c)
                   \<or> return_annotation c \<noteq> DictAnnotation
                   \<or> \<not> is_generatorfunction c) \<longrightarrow>
            main_py args (Loaded c) status_code Blocks block_processor =
              ([Log Critical], Inl (SystemExit 1))
            \<and> pyfirehose_script True pargs (Loaded c) =
                ([AuthTokenQuery, Log Critical], Inl TypeError))"
proof (intro conjI impI)
  assume "return_annotation c = Empty \<or> Empty \<in> snd ` set (parameters c)"
  then have u: "check_signature c = Unchecked" by (rule check_signature_unchecked)
  show "main_py args (Loaded c) status_code Blocks block_processor =
              (case run status_code Blocks (arg_block_start args) (arg_block_end args)
                      block_processor (arg_max_tasks args) of
                 (trace, result) \<Rightarrow> (Log Warning # trace, result))"
    using assms(1,2) u by (simp add: main_py_def load_block_processor_def split: prod.splits)
  show "pyfirehose_script True pargs (Loaded c) =
                ([AuthTokenQuery, Log Warning], Inr Extraction)"
    using assms(3,4) u
    by (simp add: pyfirehose_script_def pyfirehose_main_def pf_load_block_processor_def)
next
  assume "return_annotation c \<noteq> Empty \<and> Empty \<notin> snd ` set (parameters c)
              \<and> (BlockAnnotation \<notin> snd ` set (parameters c)
                   \<or> return_annotation c \<noteq> DictAnnotation
                   \<or> \<not> is_generatorfunction c)"
  then have i: "check_signature c = Incompatible"
    using check_signature_incompatible [of c] by blast
  show "main_py args (Loaded c) status_code Blocks block_processor =
              ([Log Critical], Inl (SystemExit 1))"
    using assms(1,2) i by (simp add: main_py_def load_block_processor_def)
  show "pyfirehose_script True pargs (Loaded c) =
                ([AuthTokenQuery, Log Critical], Inl TypeError)"
    using assms(3,4) i
    by (simp add: pyfirehose_script_def pyfirehose_main_def pf_load_block_processor_def)
qed

lemma run_100_110_2:
  "run 200 (\<lambda>a b. [Block a]) 100 110 (\<lambda>x. Some [x]) 2 =
     ([AuthTokenQuery, OpenChannel, OpenStream 100 105, OpenStream 105 110,
       WriteFile [100, 105]], Inr ())"
  by (simp add: run_def split_100_110_2 run_stream_blocks_def)

theorem signature_check_outcomes_witness:
  "main_py \<lparr>arg_block_start = 100, arg_block_end = 110, arg_max_tasks = 2,
            arg_disable_signature_check = False\<rparr>
     (Loaded \<lparr>parameters = [(''block'', BlockAnnotation)], return_annotation = Empty,
              is_generatorfunction = True\<rparr>)
     200 (\<lambda>a b. [Block a]) (\<lambda>x. Some [x]) =
     ([Log Warning, AuthTokenQuery, OpenChannel, OpenStream 100 105, OpenStream 105 110,
       WriteFile [100, 105]], Inr ())
   \<and> pyfirehose_script True \<lparr>arg_start = 100, arg_end = 110, arg_no_signature_check = False\<rparr>
       (Loaded \<lparr>parameters = [(''block'', BlockAnnotation)], return_annotation = Empty,
                is_generatorfunction = True\<rparr>) =
       ([AuthTokenQuery, Log Warning :: unit event], Inr Extraction)
   \<and> main_py \<lparr>arg_block_start = 100, arg_block_end = 110, arg_max_tasks = 2,
            arg_disable_signature_check = False\<rparr>
     (Loaded \<lparr>parameters = [(''block'', BlockAnnotation)], return_annotation = DictAnnotation,
              is_generatorfunction = False\<rparr>)
     200 (\<lambda>a b. [Block a]) (\<lambda>x. Some [x]) =
     ([Log Critical], Inl (SystemExit 1))
   \<and> pyfirehose_script True \<lparr>arg_start = 100, arg_end = 110, arg_no_signature_check = False\<rparr>
       (Loaded \<lparr>parameters = [(''block'', BlockAnnotation)], return_annotation = DictAnnotation,
                is_generatorfunction = False\<rparr>) =
       ([AuthTokenQuery, Log Critical :: unit event], Inl TypeError)"
proof -
  let ?args = "\<lparr>arg_block_start = 100, arg_block_end = 110, arg_max_tasks = 2,
                 arg_disable_signature_check = False\<rparr>"
  let ?pargs = "\<lparr>arg_start = 100, arg_end = 110, arg_no_signature_check = False\<rparr>"
  let ?partial = "\<lparr>parameters = [(''block'', BlockAnnotation)], return_annotation = Empty,
                    is_generatorfunction = True\<rparr>"
  let ?eager = "\<lparr>parameters = [(''block'', BlockAnnotation)],
                  return_annotation = DictAnnotation, is_generatorfunction = False\<rparr>"
  have warned:
    "main_py ?args (Loaded ?partial) 200 (\<lambda>a b. [Block a]) (\<lambda>x. Some [x]) =
       (case run 200 (\<lambda>a b. [Block a]) (arg_block_start ?args) (arg_block_end ?args)
               (\<lambda>x. Some [x]) (arg_max_tasks ?args) of
          (trace, result) \<Rightarrow> (Log Warning # trace, result))
     \<and> pyfirehose_script True ?pargs (Loaded ?partial) =
         ([AuthTokenQuery, Log Warning :: unit event], Inr Extraction)"
    by (rule signature_check_outcomes [THEN conjunct1, THEN mp]) simp_all
  have refused:
    "main_py ?args (Loaded ?eager) 200 (\<lambda>a b. [Block a]) (\<lambda>x. Some [x :: int]) =
       ([Log Critical], Inl (SystemExit 1))
     \<and> pyfirehose_script True ?pargs (Loaded ?eager) =
         ([AuthTokenQuery, Log Critical :: unit event], Inl TypeError)"
    by (rule signature_check_outcomes [THEN conjunct2, THEN mp]) simp_all
  from warned refused show ?thesis by (simp add: run_100_110_2)
qed

text \<open>
  In \<open>pyfirehose/__main__.py\<close> the incompatible signature is refused after the token
  request.
\<close>

theorem incompatible_signature_after_token_query:
  "pyfirehose_script True \<lparr>arg_start = 100, arg_end = 110, arg_no_signature_check = False\<rparr>
       (Loaded \<lparr>parameters = [(''block'', BlockAnnotation)], return_annotation = DictAnnotation,
                is_generatorfunction = False\<rparr>) =
       ([AuthTokenQuery, Log Critical :: unit event], Inl TypeError)
   \<and> network_activity (AuthTokenQuery :: unit event)"
  by (simp add: pyfirehose_script_def pyfirehose_main_def pf_load_block_processor_def
      check_signature_def)

end
